theory Spec2Isabelle
  imports Complex_Main "HOL-Library.Sublist" "HOL-Library.Char_ord" "HOL-Library.List_Lexorder"
begin

section \<open>Data model\<close>

text \<open>
  The dashboard of \<^verbatim>\<open>app.py\<close> works on a pandas DataFrame with the five columns
  \<^verbatim>\<open>Date\<close>, \<^verbatim>\<open>Visitors\<close>, \<^verbatim>\<open>Orders\<close>, \<^verbatim>\<open>Revenue\<close>, \<^verbatim>\<open>Segment\<close>.
  A calendar date is Python's \<^verbatim>\<open>datetime.date\<close>: year, month and day, compared
  lexicographically. A cell of the \<^verbatim>\<open>Date\<close> column is a timestamp: a calendar date
  together with a time of day, of which \<^verbatim>\<open>.dt.date\<close> keeps the date.
\<close>

record date =
  year :: nat
  month :: nat
  day :: nat

definition date_le :: "date \<Rightarrow> date \<Rightarrow> bool" where
  "date_le a b =
     (year a < year b \<or>
      (year a = year b \<and> (month a < month b \<or> (month a = month b \<and> day a \<le> day b))))"

definition date_lt :: "date \<Rightarrow> date \<Rightarrow> bool" where
  "date_lt a b =
     (year a < year b \<or>
      (year a = year b \<and> (month a < month b \<or> (month a = month b \<and> day a < day b))))"

record timestamp =
  ts_date :: date
  ts_nanos :: nat

definition dt_date :: "timestamp \<Rightarrow> date" where
  "dt_date t = ts_date t"

text \<open>
  One row of the DataFrame. The three numeric columns hold integers, as they do in the
  sample data (an upload may carry a fractional revenue, which is outside the model).
  The cells of pandas are 64-bit; their overflow is not modelled, the integers are
  unbounded.
\<close>

record row =
  Date :: timestamp
  Visitors :: int
  Orders :: int
  Revenue :: int
  Segment :: string

type_synonym dataframe = "row list"

section \<open>Filter (lines 149-153)\<close>

text \<open>
  The filter is boolean-mask indexing: three masks, one truth value per row, are
  combined with \<^verbatim>\<open>&\<close>, and \<^verbatim>\<open>df[mask]\<close> keeps the rows whose mask entry is true.
\<close>

definition mask_from :: "dataframe \<Rightarrow> date \<Rightarrow> bool list" where
  "mask_from df start_date = map (\<lambda>r. date_le start_date (dt_date (Date r))) df"

definition mask_until :: "dataframe \<Rightarrow> date \<Rightarrow> bool list" where
  "mask_until df end_date = map (\<lambda>r. date_le (dt_date (Date r)) end_date) df"

definition isin :: "dataframe \<Rightarrow> string list \<Rightarrow> bool list" where
  "isin df segments = map (\<lambda>r. List.member segments (Segment r)) df"

definition mask_and :: "bool list \<Rightarrow> bool list \<Rightarrow> bool list" where
  "mask_and m1 m2 = map (\<lambda>(a, b). a \<and> b) (zip m1 m2)"

definition select_rows :: "dataframe \<Rightarrow> bool list \<Rightarrow> dataframe" where
  "select_rows df m = map fst (filter snd (zip df m))"

definition filtered_df :: "dataframe \<Rightarrow> date \<Rightarrow> date \<Rightarrow> string list \<Rightarrow> dataframe" where
  "filtered_df df start_date end_date segments =
     select_rows df
       (mask_and (mask_and (mask_from df start_date) (mask_until df end_date))
          (isin df segments))"

text \<open>
  The inclusion predicate in the words of the specification: the date of the record
  lies between the two bounds, both included, and its segment is a selected one.
\<close>

definition inclusion :: "date \<Rightarrow> date \<Rightarrow> string list \<Rightarrow> row \<Rightarrow> bool" where
  "inclusion start_date end_date segments r =
     (date_le start_date (ts_date (Date r)) \<and> date_le (ts_date (Date r)) end_date
      \<and> Segment r \<in> set segments)"

section \<open>Sample data (lines 20-30)\<close>

text \<open>
  \<^verbatim>\<open>pd.date_range('2024-01-01', periods=30, freq='D')\<close> lists the midnights of
  consecutive calendar days; the successor of a day follows the Gregorian calendar.
\<close>

definition is_leap :: "nat \<Rightarrow> bool" where
  "is_leap y = (if y mod 400 = 0 then True else if y mod 100 = 0 then False else y mod 4 = 0)"

definition days_in_month :: "nat \<Rightarrow> nat \<Rightarrow> nat" where
  "days_in_month y m =
     (if m = 2 then (if is_leap y then 29 else 28)
      else if m = 4 \<or> m = 6 \<or> m = 9 \<or> m = 11 then 30 else 31)"

definition next_day :: "date \<Rightarrow> date" where
  "next_day d =
     (if day d < days_in_month (year d) (month d) then d\<lparr>day := day d + 1\<rparr>
      else if month d < 12 then d\<lparr>month := month d + 1, day := 1\<rparr>
      else \<lparr>year = year d + 1, month = 1, day = 1\<rparr>)"

definition midnight :: "date \<Rightarrow> timestamp" where
  "midnight d = \<lparr>ts_date = d, ts_nanos = 0\<rparr>"

fun date_range :: "date \<Rightarrow> nat \<Rightarrow> timestamp list" where
  "date_range d 0 = []"
| "date_range d (Suc periods) = midnight d # date_range (next_day d) periods"

text \<open>
  The constructor \<^verbatim>\<open>pd.DataFrame(data)\<close> on a dict of equally long columns: row
  \<open>i\<close> holds the \<open>i\<close>-th entry of every column.
\<close>

definition DataFrame ::
  "timestamp list \<Rightarrow> int list \<Rightarrow> int list \<Rightarrow> int list \<Rightarrow> string list \<Rightarrow> dataframe" where
  "DataFrame dates visitors orders revenue segment =
     map (\<lambda>(d, v, n, r, s). \<lparr>Date = d, Visitors = v, Orders = n, Revenue = r, Segment = s\<rparr>)
       (zip dates (zip visitors (zip orders (zip revenue segment))))"

definition range30 :: "int list" where
  "range30 = map int [0..<30]"

definition create_sample_data :: dataframe where
  "create_sample_data =
     DataFrame
       (date_range \<lparr>year = 2024, month = 1, day = 1\<rparr> 30)
       (map (\<lambda>i. 1500 + i * 50 + (i mod 7) * 200) range30)
       (map (\<lambda>i. 150 + i * 5 + (i mod 7) * 20) range30)
       (map (\<lambda>i. 15000 + i * 500 + (i mod 7) * 2000) range30)
       (map (\<lambda>i. if i mod 2 = 0 then ''Mobile'' else ''Desktop'') range30)"

section \<open>Key metrics (lines 155-195)\<close>

text \<open>
  Division of two integer cells is numpy's \<^verbatim>\<open>true_divide\<close>: the result is a
  64-bit float, and a zero divisor gives an infinity or NaN instead of raising. Finite
  floats are idealised as exact reals (rounding of the binary format is not modelled).
\<close>

datatype float64 = Finite real | PosInf | NegInf | NaN

definition true_divide :: "int \<Rightarrow> int \<Rightarrow> float64" where
  "true_divide a b =
     (if b = 0 then (if a = 0 then NaN else if 0 < a then PosInf else NegInf)
      else Finite (real_of_int a / real_of_int b))"

fun times100 :: "float64 \<Rightarrow> float64" where
  "times100 (Finite x) = Finite (x * 100)"
| "times100 PosInf = PosInf"
| "times100 NegInf = NegInf"
| "times100 NaN = NaN"

definition col_sum :: "(row \<Rightarrow> int) \<Rightarrow> dataframe \<Rightarrow> int" where
  "col_sum col df = sum_list (map col df)"

definition conversion_rate :: "int \<Rightarrow> int \<Rightarrow> float64" where
  "conversion_rate total_orders total_visitors =
     (if total_visitors > 0 then times100 (true_divide total_orders total_visitors)
      else Finite 0)"

definition avg_order_value :: "int \<Rightarrow> int \<Rightarrow> float64" where
  "avg_order_value total_revenue total_orders =
     (if total_orders > 0 then true_divide total_revenue total_orders else Finite 0)"

definition mean :: "(row \<Rightarrow> int) \<Rightarrow> dataframe \<Rightarrow> float64" where
  "mean col df = true_divide (col_sum col df) (int (length df))"

record kpis =
  kpi_total_visitors :: int
  kpi_total_orders :: int
  kpi_total_revenue :: int
  kpi_conversion_rate :: float64
  kpi_avg_order_value :: float64
  kpi_avg_daily_visitors :: float64
  kpi_avg_daily_orders :: float64
  kpi_avg_daily_revenue :: float64

text \<open>
  The metrics are computed in the branch \<^verbatim>\<open>if len(filtered_df) > 0\<close>; on an empty
  view the dashboard shows a warning and computes none of them. The daily averages are
  the column means of pandas: the column sum divided by the number of rows.
\<close>

definition key_metrics :: "dataframe \<Rightarrow> kpis option" where
  "key_metrics fdf =
     (if length fdf > 0 then
        (let total_visitors = col_sum Visitors fdf;
             total_orders = col_sum Orders fdf;
             total_revenue = col_sum Revenue fdf
         in Some \<lparr>kpi_total_visitors = total_visitors,
                  kpi_total_orders = total_orders,
                  kpi_total_revenue = total_revenue,
                  kpi_conversion_rate = conversion_rate total_orders total_visitors,
                  kpi_avg_order_value = avg_order_value total_revenue total_orders,
                  kpi_avg_daily_visitors = mean Visitors fdf,
                  kpi_avg_daily_orders = mean Orders fdf,
                  kpi_avg_daily_revenue = mean Revenue fdf\<rparr>)
      else None)"

section \<open>Segment breakdown (lines 315-321)\<close>

text \<open>
  \<^verbatim>\<open>groupby('Segment').agg(sum).reset_index()\<close> has one row per distinct segment,
  the segments in ascending order, each with the column sums of its rows. The column
  \<^verbatim>\<open>Conversion Rate\<close> is then computed on whole columns and rounded to two decimals
  (numpy rounds a tie to the even neighbour; infinities and NaN stay as they are).
\<close>

record segment_row =
  seg_segment :: string
  seg_visitors :: int
  seg_orders :: int
  seg_revenue :: int

definition groupby_agg :: "dataframe \<Rightarrow> segment_row list" where
  "groupby_agg fdf =
     map (\<lambda>k. let g = filter (\<lambda>r. Segment r = k) fdf
              in \<lparr>seg_segment = k, seg_visitors = col_sum Visitors g,
                  seg_orders = col_sum Orders g, seg_revenue = col_sum Revenue g\<rparr>)
       (sort (remdups (map Segment fdf)))"

definition round_half_even :: "real \<Rightarrow> int" where
  "round_half_even x =
     (let f = \<lfloor>x\<rfloor>; d = x - real_of_int f
      in if d < 1 / 2 then f else if 1 / 2 < d then f + 1
         else if even f then f else f + 1)"

fun round2 :: "float64 \<Rightarrow> float64" where
  "round2 (Finite x) = Finite (real_of_int (round_half_even (x * 100)) / 100)"
| "round2 PosInf = PosInf"
| "round2 NegInf = NegInf"
| "round2 NaN = NaN"

record segment_summary_row =
  sum_segment :: string
  sum_visitors :: int
  sum_orders :: int
  sum_revenue :: int
  sum_conversion_rate :: float64

definition segment_summary :: "dataframe \<Rightarrow> segment_summary_row list" where
  "segment_summary fdf =
     map (\<lambda>g. \<lparr>sum_segment = seg_segment g, sum_visitors = seg_visitors g,
                sum_orders = seg_orders g, sum_revenue = seg_revenue g,
                sum_conversion_rate =
                  round2 (times100 (true_divide (seg_orders g) (seg_visitors g)))\<rparr>)
       (groupby_agg fdf)"

section \<open>Raw export (lines 281-288)\<close>

text \<open>
  \<^verbatim>\<open>to_csv(index=False)\<close> writes a header line with the column names and then one
  line per row, in the order of the rows, each line holding the cells of the row in
  column order; the row labels are not written. A line is modelled as its list of cells.
\<close>

datatype cell = DateCell timestamp | IntCell int | StrCell string

definition header :: "cell list" where
  "header = [StrCell ''Date'', StrCell ''Visitors'', StrCell ''Orders'',
             StrCell ''Revenue'', StrCell ''Segment'']"

definition csv_line :: "row \<Rightarrow> cell list" where
  "csv_line r = [DateCell (Date r), IntCell (Visitors r), IntCell (Orders r),
                 IntCell (Revenue r), StrCell (Segment r)]"

definition to_csv :: "dataframe \<Rightarrow> cell list list" where
  "to_csv df = header # map csv_line df"

definition csv_data :: "dataframe \<Rightarrow> cell list list" where
  "csv_data fdf = to_csv fdf"

text \<open>
  Reading the exported text back: the dates of its data lines, and what it means for
  them to be sorted by date descending (every line is no earlier than the lines after it).
\<close>

definition ts_le :: "timestamp \<Rightarrow> timestamp \<Rightarrow> bool" where
  "ts_le a b =
     (date_lt (ts_date a) (ts_date b) \<or> (ts_date a = ts_date b \<and> ts_nanos a \<le> ts_nanos b))"

fun line_dates :: "cell list list \<Rightarrow> timestamp list" where
  "line_dates [] = []"
| "line_dates ((DateCell t # cs) # ls) = t # line_dates ls"
| "line_dates (l # ls) = line_dates ls"

fun descending :: "timestamp list \<Rightarrow> bool" where
  "descending [] = True"
| "descending [t] = True"
| "descending (t # u # ts) = (ts_le u t \<and> descending (u # ts))"

section \<open>Upload (lines 33-41 and 70-103)\<close>

text \<open>
  The \<^verbatim>\<open>try\<close> block of \<^verbatim>\<open>process_uploaded_data\<close> has three steps, each of which
  may raise: \<^verbatim>\<open>pd.read_csv\<close> on the bytes (line 37), the column lookup
  \<^verbatim>\<open>df['Date']\<close> and \<^verbatim>\<open>pd.to_datetime\<close> on that column (line 38). The two pandas
  parsers are library code: an uploaded file is modelled by its name together with the
  outcome each of them has on it, the message of the exception raised or the result. The
  column lookup is modelled as written: on a frame without a \<^verbatim>\<open>Date\<close> column it raises
  \<^verbatim>\<open>KeyError\<close>, whose message is the quoted column name, and \<^verbatim>\<open>to_datetime\<close> is
  not reached. The rows of a frame are read only after the column check has passed.
\<close>

record frame =
  frame_columns :: "string list"
  frame_rows :: dataframe

record uploaded_file =
  file_name :: string
  file_read_csv :: "string + frame"
  file_to_datetime :: "string option"

definition key_error :: "string \<Rightarrow> string" where
  "key_error key = [CHR 0x27] @ key @ [CHR 0x27]"

definition process_uploaded_data :: "uploaded_file \<Rightarrow> frame option \<times> string option" where
  "process_uploaded_data uploaded_file =
     (case file_read_csv uploaded_file of
        Inl e \<Rightarrow> (None, Some e)
      | Inr df \<Rightarrow>
          (if List.member (frame_columns df) ''Date''
           then (case file_to_datetime uploaded_file of
                   Some e \<Rightarrow> (None, Some e)
                 | None \<Rightarrow> (Some df, None))
           else (None, Some (key_error ''Date''))))"

record session_state =
  data_loaded :: bool
  last_upload :: "string option"

datatype sidebar_message = ErrorMessage string | MissingColumns "string list" | DataLoaded

definition required_cols :: "string list" where
  "required_cols = [''Date'', ''Visitors'', ''Orders'', ''Revenue'', ''Segment'']"

definition missing_cols :: "string list \<Rightarrow> string list" where
  "missing_cols columns = filter (\<lambda>col. \<not> List.member columns col) required_cols"

text \<open>
  The upload branch of a render: the session state before, the uploaded file (if any);
  the session state after, the frame handed to the dashboard (\<^verbatim>\<open>df\<close>, None for the
  welcome screen) and the message shown in the sidebar. \<^verbatim>\<open>if error\<close> tests the
  message for being a non-empty string. The spinner around the first call is a display
  element and is taken to have no effect on the data flow; both branches of the new-file
  check make the same call, and only the first one writes \<^verbatim>\<open>last_upload\<close>.
\<close>

definition upload_branch ::
  "session_state \<Rightarrow> uploaded_file option
     \<Rightarrow> session_state \<times> frame option \<times> sidebar_message option" where
  "upload_branch st upl =
     (case upl of
        None \<Rightarrow> (st, None, None)
      | Some uploaded_file \<Rightarrow>
          (let st1 = (if last_upload st \<noteq> Some (file_name uploaded_file)
                      then st\<lparr>last_upload := Some (file_name uploaded_file)\<rparr> else st);
               (df, error) = process_uploaded_data uploaded_file
           in if error \<noteq> None \<and> error \<noteq> Some []
              then (st1, df, Some (ErrorMessage (the error)))
              else (case df of
                      None \<Rightarrow> (st1, None, None)
                    | Some fr \<Rightarrow>
                        (if missing_cols (frame_columns fr) \<noteq> []
                         then (st1, None, Some (MissingColumns (missing_cols (frame_columns fr))))
                         else (st1\<lparr>data_loaded := True\<rparr>, Some fr, Some DataLoaded)))))"

section \<open>Properties of the filter\<close>

lemma select_rows_map: "select_rows df (map p df) = filter p df"
  by (induction df) (simp_all add: select_rows_def)

lemma mask_and_map: "mask_and (map p xs) (map q xs) = map (\<lambda>x. p x \<and> q x) xs"
  by (induction xs) (simp_all add: mask_and_def)

lemma filtered_df_filter:
  "filtered_df df s e segs = filter (inclusion s e segs) df"
proof -
  have "filtered_df df s e segs =
        select_rows df (map (\<lambda>r. (date_le s (dt_date (Date r)) \<and> date_le (dt_date (Date r)) e)
                                  \<and> List.member segs (Segment r)) df)"
    by (simp add: filtered_df_def mask_from_def mask_until_def isin_def mask_and_map)
  also have "\<dots> = filter (\<lambda>r. (date_le s (dt_date (Date r)) \<and> date_le (dt_date (Date r)) e)
                                  \<and> List.member segs (Segment r)) df"
    by (rule select_rows_map)
  also have "\<dots> = filter (inclusion s e segs) df"
    by (rule filter_cong) (auto simp add: inclusion_def dt_date_def)
  finally show ?thesis .
qed

lemma count_list_filter:
  "count_list (filter P xs) x = (if P x then count_list xs x else 0)"
  by (induction xs) auto

lemma date_le_trans: "date_le a b \<Longrightarrow> date_le b c \<Longrightarrow> date_le a c"
  by (auto simp add: date_le_def)

lemma date_lt_not_le: "date_lt a b \<Longrightarrow> \<not> date_le b a"
  by (auto simp add: date_le_def date_lt_def)

text \<open>
  C1. For every dataset and every filter, the filtered view holds exactly the records of
  the dataset whose date lies between start and end date (both included, the time of day
  ignored) and whose segment is selected: the view is the dataset restricted to the
  inclusion predicate, every record occurs in it as often as it matches in the dataset,
  and the matching records keep their relative order.
\<close>

theorem C1_filter_exact:
  "filtered_df D s e segs = filter (inclusion s e segs) D
   \<and> set (filtered_df D s e segs) = {r. r \<in> set D \<and> inclusion s e segs r}
   \<and> count_list (filtered_df D s e segs) r
       = (if inclusion s e segs r then count_list D r else 0)
   \<and> subseq (filtered_df D s e segs) D
   \<and> inclusion s e segs (r\<lparr>Date := (Date r)\<lparr>ts_nanos := n\<rparr>\<rparr>) = inclusion s e segs r"
proof -
  have "inclusion s e segs (r\<lparr>Date := (Date r)\<lparr>ts_nanos := n\<rparr>\<rparr>) = inclusion s e segs r"
    by (simp add: inclusion_def)
  then show ?thesis
    by (auto simp add: filtered_df_filter count_list_filter)
qed

text \<open>
  C7. With no segment selected the filtered view is empty, and with an inverted range
  (start date after end date) it is empty too; the filter is a total function, so neither
  input is rejected and neither raises.
\<close>

theorem C7_empty_views:
  "filtered_df D s e [] = []
   \<and> (date_lt e s \<longrightarrow> filtered_df D s e segs = [])"
proof -
  have "filter (inclusion s e []) D = []"
    by (simp add: inclusion_def)
  moreover have "filter (inclusion s e segs) D = []" if "date_lt e s"
  proof -
    have "\<not> inclusion s e segs r" for r
      using date_le_trans [of s "ts_date (Date r)" e] date_lt_not_le [OF that]
      by (auto simp add: inclusion_def)
    then show ?thesis by simp
  qed
  ultimately show ?thesis by (simp add: filtered_df_filter)
qed

theorem C7_empty_views_witness:
  "date_lt \<lparr>year = 2024, month = 1, day = 1\<rparr> \<lparr>year = 2024, month = 6, day = 1\<rparr>
   \<and> filtered_df
        [\<lparr>Date = \<lparr>ts_date = \<lparr>year = 2024, month = 3, day = 5\<rparr>, ts_nanos = 0\<rparr>,
          Visitors = 100, Orders = 10, Revenue = 1000, Segment = ''Mobile''\<rparr>]
        \<lparr>year = 2024, month = 6, day = 1\<rparr> \<lparr>year = 2024, month = 1, day = 1\<rparr>
        [''Mobile''] = []"
proof -
  have h: "date_lt \<lparr>year = 2024, month = 1, day = 1\<rparr> \<lparr>year = 2024, month = 6, day = 1\<rparr>"
    by (simp add: date_lt_def)
  show ?thesis
    using h C7_empty_views
      [of "[\<lparr>Date = \<lparr>ts_date = \<lparr>year = 2024, month = 3, day = 5\<rparr>, ts_nanos = 0\<rparr>,
          Visitors = 100, Orders = 10, Revenue = 1000, Segment = ''Mobile''\<rparr>]"
          "\<lparr>year = 2024, month = 6, day = 1\<rparr>" "\<lparr>year = 2024, month = 1, day = 1\<rparr>"
          "[''Mobile'']"]
    by simp
qed

section \<open>The sample data\<close>

lemma length_date_range: "length (date_range d n) = n"
  by (induction n arbitrary: d) simp_all

lemma date_range_nth: "i < n \<Longrightarrow> date_range d n ! i = midnight ((next_day ^^ i) d)"
proof (induction n arbitrary: d i)
  case 0
  then show ?case by simp
next
  case (Suc n)
  show ?case
  proof (cases i)
    case 0
    then show ?thesis by simp
  next
    case (Suc j)
    with Suc.prems have "j < n" by simp
    from Suc.IH [OF this, of "next_day d"] Suc show ?thesis
      by (simp add: funpow_swap1)
  qed
qed

lemma DataFrame_length:
  "length ds = n \<Longrightarrow> length vs = n \<Longrightarrow> length os = n \<Longrightarrow> length rs = n \<Longrightarrow> length ss = n
   \<Longrightarrow> length (DataFrame ds vs os rs ss) = n"
  by (simp add: DataFrame_def)

lemma DataFrame_nth:
  "length ds = n \<Longrightarrow> length vs = n \<Longrightarrow> length os = n \<Longrightarrow> length rs = n \<Longrightarrow> length ss = n
   \<Longrightarrow> i < n
   \<Longrightarrow> DataFrame ds vs os rs ss ! i
       = \<lparr>Date = ds ! i, Visitors = vs ! i, Orders = os ! i, Revenue = rs ! i, Segment = ss ! i\<rparr>"
  by (simp add: DataFrame_def)

lemma january_2024:
  "i < 31 \<Longrightarrow> (next_day ^^ i) \<lparr>year = 2024, month = 1, day = 1\<rparr> = \<lparr>year = 2024, month = 1, day = i + 1\<rparr>"
proof (induction i)
  case 0
  then show ?case by simp
next
  case (Suc i)
  then show ?case by (simp add: next_day_def days_in_month_def)
qed

lemma range30_nth: "i < 30 \<Longrightarrow> range30 ! i = int i"
  by (simp add: range30_def)

lemma length_range30: "length range30 = 30"
  by (simp add: range30_def)

lemma sample_length: "length create_sample_data = 30"
  unfolding create_sample_data_def
  by (rule DataFrame_length) (simp_all add: length_date_range length_range30)

lemma sample_nth:
  assumes "i < 30"
  shows "create_sample_data ! i =
     \<lparr>Date = midnight ((next_day ^^ i) \<lparr>year = 2024, month = 1, day = 1\<rparr>),
      Visitors = 1500 + int i * 50 + (int i mod 7) * 200,
      Orders = 150 + int i * 5 + (int i mod 7) * 20,
      Revenue = 15000 + int i * 500 + (int i mod 7) * 2000,
      Segment = (if int i mod 2 = 0 then ''Mobile'' else ''Desktop'')\<rparr>"
proof -
  have "create_sample_data ! i =
     \<lparr>Date = date_range \<lparr>year = 2024, month = 1, day = 1\<rparr> 30 ! i,
      Visitors = map (\<lambda>i. 1500 + i * 50 + (i mod 7) * 200) range30 ! i,
      Orders = map (\<lambda>i. 150 + i * 5 + (i mod 7) * 20) range30 ! i,
      Revenue = map (\<lambda>i. 15000 + i * 500 + (i mod 7) * 2000) range30 ! i,
      Segment = map (\<lambda>i. if i mod 2 = 0 then ''Mobile'' else ''Desktop'') range30 ! i\<rparr>"
    unfolding create_sample_data_def
    by (rule DataFrame_nth [where n = 30]) (simp_all add: length_date_range length_range30 assms)
  then show ?thesis
    using assms by (simp add: date_range_nth length_range30 range30_nth)
qed



lemma sample_row_ratio:
  assumes "r \<in> set create_sample_data"
  shows "Visitors r = 10 * Orders r \<and> Revenue r = 10 * Visitors r \<and> 0 < Orders r"
proof -
  from assms obtain i where i: "i < 30" and r: "r = create_sample_data ! i"
    by (auto simp add: in_set_conv_nth sample_length)
  show ?thesis
    unfolding r sample_nth [OF i] by simp
qed

lemma col_sum_Nil: "col_sum c [] = 0"
  by (simp add: col_sum_def)

lemma col_sum_Cons: "col_sum c (r # rs) = c r + col_sum c rs"
  by (simp add: col_sum_def)

lemma sample_view_totals:
  assumes "set v \<subseteq> set create_sample_data"
  shows "col_sum Visitors v = 10 * col_sum Orders v \<and> 0 \<le> col_sum Orders v
         \<and> (v \<noteq> [] \<longrightarrow> 0 < col_sum Orders v)"
  using assms
proof (induction v)
  case Nil
  then show ?case by (simp add: col_sum_Nil)
next
  case (Cons r v)
  then have "r \<in> set create_sample_data" and "set v \<subseteq> set create_sample_data"
    by simp_all
  with Cons.IH sample_row_ratio [of r] show ?case
    by (simp add: col_sum_Cons)
qed

lemma ten_percent:
  assumes "0 < n"
  shows "conversion_rate n (10 * n) = Finite 10"
  using assms by (simp add: conversion_rate_def true_divide_def)

lemma sample_view_rate:
  assumes "set v \<subseteq> set create_sample_data" and "key_metrics v = Some k"
  shows "kpi_conversion_rate k = Finite 10"
proof -
  from assms(2) have ne: "v \<noteq> []"
    by (auto simp add: key_metrics_def split: if_splits)
  with sample_view_totals [OF assms(1)]
  have tv: "col_sum Visitors v = 10 * col_sum Orders v" and pos: "0 < col_sum Orders v"
    by simp_all
  from assms(2) ne have "kpi_conversion_rate k = conversion_rate (col_sum Orders v) (col_sum Visitors v)"
    by (auto simp add: key_metrics_def Let_def)
  with tv ten_percent [OF pos] show ?thesis by simp
qed

text \<open>
  C10. Every record of the sample data has ten times as many visitors as orders and ten
  times as much revenue as visitors, hence no more orders than visitors; and whenever the
  dashboard computes the key metrics of a filtered view of the sample data (or of any
  selection of its records), the conversion rate is exactly 10 percent.
\<close>

theorem C10_sample_ratio:
  "(\<forall>r\<in>set create_sample_data.
      Visitors r = 10 * Orders r \<and> Revenue r = 10 * Visitors r \<and> Orders r \<le> Visitors r)
   \<and> (\<forall>k. key_metrics (filtered_df create_sample_data s e segs) = Some k
          \<longrightarrow> kpi_conversion_rate k = Finite 10)
   \<and> (\<forall>k. set v \<subseteq> set create_sample_data \<and> key_metrics v = Some k
          \<longrightarrow> kpi_conversion_rate k = Finite 10)"
proof (intro conjI ballI allI impI)
  fix r assume "r \<in> set create_sample_data"
  from sample_row_ratio [OF this]
  show "Visitors r = 10 * Orders r" and "Revenue r = 10 * Visitors r"
    and "Orders r \<le> Visitors r"
    by simp_all
next
  fix k assume k: "key_metrics (filtered_df create_sample_data s e segs) = Some k"
  have "set (filtered_df create_sample_data s e segs) \<subseteq> set create_sample_data"
    by (simp add: filtered_df_filter)
  from sample_view_rate [OF this k] show "kpi_conversion_rate k = Finite 10" .
next
  fix k assume "set v \<subseteq> set create_sample_data \<and> key_metrics v = Some k"
  then show "kpi_conversion_rate k = Finite 10"
    using sample_view_rate by blast
qed

lemma sample_row4:
  "create_sample_data ! 4 =
     \<lparr>Date = \<lparr>ts_date = \<lparr>year = 2024, month = 1, day = 5\<rparr>, ts_nanos = 0\<rparr>,
      Visitors = 2500, Orders = 250, Revenue = 25000, Segment = ''Mobile''\<rparr>"
proof -
  have "(4::nat) < 30" by simp
  from sample_nth [OF this] january_2024 [of 4] show ?thesis
    by (simp add: midnight_def)
qed

lemma sample_window:
  "filtered_df create_sample_data
        \<lparr>year = 2024, month = 1, day = 5\<rparr> \<lparr>year = 2024, month = 1, day = 6\<rparr> [''Mobile'']
       = [create_sample_data ! 4]"
  by code_simp

theorem C10_sample_ratio_witness:
  "create_sample_data ! 4 \<in> set create_sample_data
   \<and> Visitors (create_sample_data ! 4) = 10 * Orders (create_sample_data ! 4)
   \<and> key_metrics (filtered_df create_sample_data
        \<lparr>year = 2024, month = 1, day = 5\<rparr> \<lparr>year = 2024, month = 1, day = 6\<rparr> [''Mobile''])
      = Some \<lparr>kpi_total_visitors = 2500, kpi_total_orders = 250, kpi_total_revenue = 25000,
               kpi_conversion_rate = Finite 10, kpi_avg_order_value = Finite 100,
               kpi_avg_daily_visitors = Finite 2500, kpi_avg_daily_orders = Finite 250,
               kpi_avg_daily_revenue = Finite 25000\<rparr>"
proof -
  have m: "create_sample_data ! 4 \<in> set create_sample_data"
    by (simp add: sample_length)
  have k: "key_metrics (filtered_df create_sample_data
        \<lparr>year = 2024, month = 1, day = 5\<rparr> \<lparr>year = 2024, month = 1, day = 6\<rparr> [''Mobile''])
      = Some \<lparr>kpi_total_visitors = 2500, kpi_total_orders = 250, kpi_total_revenue = 25000,
               kpi_conversion_rate = conversion_rate 250 2500,
               kpi_avg_order_value = Finite 100,
               kpi_avg_daily_visitors = Finite 2500, kpi_avg_daily_orders = Finite 250,
               kpi_avg_daily_revenue = Finite 25000\<rparr>"
    unfolding sample_window sample_row4
    by (simp add: key_metrics_def col_sum_def avg_order_value_def true_divide_def mean_def)
  from C10_sample_ratio
    [of "\<lparr>year = 2024, month = 1, day = 5\<rparr>" "\<lparr>year = 2024, month = 1, day = 6\<rparr>" "[''Mobile'']"]
  have "Visitors (create_sample_data ! 4) = 10 * Orders (create_sample_data ! 4)"
    and "conversion_rate 250 2500 = Finite 10"
    using m k by auto
  with m k show ?thesis by simp
qed

section \<open>Key metrics and segment breakdown\<close>

text \<open>
  C2. With totals \<open>tv\<close> (visitors), \<open>tn\<close> (orders) and \<open>tr\<close> (revenue): the
  conversion rate is \<open>tn / tv * 100\<close> when \<open>tv > 0\<close> and 0 when \<open>tv = 0\<close>; the
  average order value is \<open>tr / tn\<close> when \<open>tn > 0\<close> and 0 when \<open>tn = 0\<close>. Both are
  finite numbers in the zero cases (no error, no infinity, no NaN), and for every non-empty
  view the key metrics are computed and carry these two values at the column sums of the
  view. Division is exact in the model.
\<close>

theorem C2_zero_guards:
  "(0 < tv \<longrightarrow> conversion_rate tn tv = Finite (real_of_int tn / real_of_int tv * 100))
   \<and> (tv = 0 \<longrightarrow> conversion_rate tn tv = Finite 0)
   \<and> (0 < tn \<longrightarrow> avg_order_value tr tn = Finite (real_of_int tr / real_of_int tn))
   \<and> (tn = 0 \<longrightarrow> avg_order_value tr tn = Finite 0)
   \<and> (v \<noteq> [] \<longrightarrow> key_metrics v =
         Some \<lparr>kpi_total_visitors = col_sum Visitors v,
               kpi_total_orders = col_sum Orders v,
               kpi_total_revenue = col_sum Revenue v,
               kpi_conversion_rate = conversion_rate (col_sum Orders v) (col_sum Visitors v),
               kpi_avg_order_value = avg_order_value (col_sum Revenue v) (col_sum Orders v),
               kpi_avg_daily_visitors = mean Visitors v,
               kpi_avg_daily_orders = mean Orders v,
               kpi_avg_daily_revenue = mean Revenue v\<rparr>)"
proof -
  have "v \<noteq> [] \<longrightarrow> key_metrics v =
         Some \<lparr>kpi_total_visitors = col_sum Visitors v,
               kpi_total_orders = col_sum Orders v,
               kpi_total_revenue = col_sum Revenue v,
               kpi_conversion_rate = conversion_rate (col_sum Orders v) (col_sum Visitors v),
               kpi_avg_order_value = avg_order_value (col_sum Revenue v) (col_sum Orders v),
               kpi_avg_daily_visitors = mean Visitors v,
               kpi_avg_daily_orders = mean Orders v,
               kpi_avg_daily_revenue = mean Revenue v\<rparr>"
    by (simp add: key_metrics_def Let_def)
  then show ?thesis
    by (simp add: conversion_rate_def avg_order_value_def true_divide_def)
qed

theorem C2_zero_guards_witness:
  "conversion_rate 40 300 = Finite (40 / 300 * 100)
   \<and> avg_order_value 4000 40 = Finite 100
   \<and> conversion_rate 0 0 = Finite 0
   \<and> avg_order_value 0 0 = Finite 0
   \<and> key_metrics
        [\<lparr>Date = \<lparr>ts_date = \<lparr>year = 2024, month = 1, day = 1\<rparr>, ts_nanos = 0\<rparr>,
          Visitors = 0, Orders = 0, Revenue = 0, Segment = ''Mobile''\<rparr>]
      = Some \<lparr>kpi_total_visitors = 0, kpi_total_orders = 0, kpi_total_revenue = 0,
               kpi_conversion_rate = Finite 0, kpi_avg_order_value = Finite 0,
               kpi_avg_daily_visitors = Finite 0, kpi_avg_daily_orders = Finite 0,
               kpi_avg_daily_revenue = Finite 0\<rparr>"
  using C2_zero_guards [of 300 40 4000 "[]"]
    C2_zero_guards [of 0 0 0
      "[\<lparr>Date = \<lparr>ts_date = \<lparr>year = 2024, month = 1, day = 1\<rparr>, ts_nanos = 0\<rparr>,
          Visitors = 0, Orders = 0, Revenue = 0, Segment = ''Mobile''\<rparr>]"]
  by (simp add: col_sum_def mean_def true_divide_def)

lemma sum_list_absent:
  "a \<notin> set ks \<Longrightarrow> (\<Sum>k\<leftarrow>ks. if a = k then (c::int) else 0) = 0"
  by (induction ks) auto

lemma sum_list_indicator:
  assumes "distinct ks" and "a \<in> set ks"
  shows "(\<Sum>k\<leftarrow>ks. if a = k then (c::int) else 0) = c"
  using assms by (induction ks) (auto simp add: sum_list_absent)

lemma grouped_sums:
  assumes "distinct ks" and "f ` set xs \<subseteq> set ks"
  shows "(\<Sum>k\<leftarrow>ks. sum_list (map g (filter (\<lambda>x. f x = k) xs))) = (sum_list (map g xs) :: int)"
  using assms(2)
proof (induction xs)
  case Nil
  then show ?case by (simp add: sum_list_0)
next
  case (Cons x xs)
  then have mem: "f x \<in> set ks" and sub: "f ` set xs \<subseteq> set ks"
    by simp_all
  have "(\<Sum>k\<leftarrow>ks. sum_list (map g (filter (\<lambda>y. f y = k) (x # xs))))
        = (\<Sum>k\<leftarrow>ks. (if f x = k then g x else 0) + sum_list (map g (filter (\<lambda>y. f y = k) xs)))"
    by (rule arg_cong [where f = sum_list], rule map_cong) simp_all
  also have "\<dots> = (\<Sum>k\<leftarrow>ks. if f x = k then g x else 0)
                   + (\<Sum>k\<leftarrow>ks. sum_list (map g (filter (\<lambda>y. f y = k) xs)))"
    by (simp add: sum_list_addf)
  also have "\<dots> = g x + sum_list (map g xs)"
    using sum_list_indicator [OF assms(1) mem] Cons.IH [OF sub] by simp
  finally show ?case by simp
qed

lemma segment_summary_visitors:
  "map sum_visitors (segment_summary v)
   = map (\<lambda>k. col_sum Visitors (filter (\<lambda>r. Segment r = k) v)) (sort (remdups (map Segment v)))"
  by (simp add: segment_summary_def groupby_agg_def Let_def comp_def)

lemma segment_visitors_total:
  "sum_list (map sum_visitors (segment_summary v)) = col_sum Visitors v"
proof -
  have "distinct (sort (remdups (map Segment v)))"
    by simp
  moreover have "Segment ` set v \<subseteq> set (sort (remdups (map Segment v)))"
    by simp
  ultimately show ?thesis
    unfolding segment_summary_visitors col_sum_def by (rule grouped_sums)
qed

text \<open>
  C9. For every filtered view the visitors of the rows of the segment summary add up to
  the total visitors of the view, which is the total the key metrics report whenever they
  are computed (the view is non-empty).
\<close>

theorem C9_grouped_sums_partition:
  "sum_list (map sum_visitors (segment_summary v)) = col_sum Visitors v
   \<and> (case key_metrics v of
         None \<Rightarrow> v = []
       | Some k \<Rightarrow> sum_list (map sum_visitors (segment_summary v)) = kpi_total_visitors k)"
  by (simp add: segment_visitors_total key_metrics_def Let_def)

text \<open>
  C4. The conversion rate of the segment summary is computed by an unguarded division
  (line 320): for a view whose only Mobile row has 0 visitors and 0 orders the rate of the
  Mobile segment is NaN, where the key-metric formula of line 189 on the same totals
  gives 0.
\<close>

theorem C4_unguarded_division:
  "map sum_conversion_rate
     (segment_summary
        [\<lparr>Date = \<lparr>ts_date = \<lparr>year = 2024, month = 1, day = 1\<rparr>, ts_nanos = 0\<rparr>,
          Visitors = 0, Orders = 0, Revenue = 0, Segment = ''Mobile''\<rparr>]) = [NaN]
   \<and> conversion_rate 0 0 = Finite 0"
  by (simp add: segment_summary_def groupby_agg_def col_sum_def true_divide_def
      conversion_rate_def)

section \<open>Export and upload\<close>

lemma line_dates_csv_lines: "line_dates (map csv_line v) = map Date v"
  by (induction v) (simp_all add: csv_line_def)

lemma line_dates_header: "line_dates (header # ls) = line_dates ls"
  by (simp add: header_def)

text \<open>
  C3 (as amended). For every filtered view the raw export starts with the header line and
  then holds one line per record of the view, in the order of the view (the order of the
  dataset, not sorted by date); line \<open>i + 1\<close> consists of exactly the five fields of
  record \<open>i\<close>, the date first, with no index cell before it.
\<close>

theorem C3_export_in_view_order:
  "hd (csv_data v) = header
   \<and> tl (csv_data v) = map csv_line v
   \<and> length (csv_data v) = Suc (length v)
   \<and> line_dates (csv_data v) = map Date v
   \<and> (\<forall>i<length v. csv_data v ! Suc i =
         [DateCell (Date (v ! i)), IntCell (Visitors (v ! i)), IntCell (Orders (v ! i)),
          IntCell (Revenue (v ! i)), StrCell (Segment (v ! i))])"
  by (simp add: csv_data_def to_csv_def line_dates_header line_dates_csv_lines csv_line_def)

theorem C3_export_in_view_order_witness:
  "csv_data
     [\<lparr>Date = \<lparr>ts_date = \<lparr>year = 2024, month = 1, day = 1\<rparr>, ts_nanos = 0\<rparr>,
       Visitors = 100, Orders = 10, Revenue = 1000, Segment = ''Mobile''\<rparr>,
      \<lparr>Date = \<lparr>ts_date = \<lparr>year = 2024, month = 1, day = 2\<rparr>, ts_nanos = 0\<rparr>,
       Visitors = 200, Orders = 30, Revenue = 3000, Segment = ''Desktop''\<rparr>] ! Suc 1 =
     [DateCell \<lparr>ts_date = \<lparr>year = 2024, month = 1, day = 2\<rparr>, ts_nanos = 0\<rparr>,
      IntCell 200, IntCell 30, IntCell 3000, StrCell ''Desktop'']"
proof -
  let ?v = "[\<lparr>Date = \<lparr>ts_date = \<lparr>year = 2024, month = 1, day = 1\<rparr>, ts_nanos = 0\<rparr>,
       Visitors = 100, Orders = 10, Revenue = 1000, Segment = ''Mobile''\<rparr>,
      \<lparr>Date = \<lparr>ts_date = \<lparr>year = 2024, month = 1, day = 2\<rparr>, ts_nanos = 0\<rparr>,
       Visitors = 200, Orders = 30, Revenue = 3000, Segment = ''Desktop''\<rparr>]"
  have h: "(1::nat) < length ?v" by simp
  from C3_export_in_view_order [of ?v] have
    "\<forall>i<length ?v. csv_data ?v ! Suc i =
         [DateCell (Date (?v ! i)), IntCell (Visitors (?v ! i)), IntCell (Orders (?v ! i)),
          IntCell (Revenue (?v ! i)), StrCell (Segment (?v ! i))]"
    by blast
  from this [rule_format, OF h] show ?thesis by simp
qed

text \<open>
  C3 as stated fails: the export of a view holding 1 January before 2 January lists the
  dates in that ascending order, so its lines are not sorted by date descending.
\<close>

theorem C3_not_sorted_counterexample:
  "\<not> descending (line_dates (csv_data
     [\<lparr>Date = \<lparr>ts_date = \<lparr>year = 2024, month = 1, day = 1\<rparr>, ts_nanos = 0\<rparr>,
       Visitors = 100, Orders = 10, Revenue = 1000, Segment = ''Mobile''\<rparr>,
      \<lparr>Date = \<lparr>ts_date = \<lparr>year = 2024, month = 1, day = 2\<rparr>, ts_nanos = 0\<rparr>,
       Visitors = 200, Orders = 30, Revenue = 3000, Segment = ''Desktop''\<rparr>]))"
  by (simp add: csv_data_def to_csv_def header_def csv_line_def ts_le_def date_lt_def)

text \<open>
  C5 (as amended). When parsing the uploaded file fails with message \<open>e\<close>,
  \<^verbatim>\<open>process_uploaded_data\<close> returns only the error (in particular when
  \<^verbatim>\<open>read_csv\<close> raises), no frame is handed to the dashboard, the flag
  \<^verbatim>\<open>data_loaded\<close> keeps its value, and the only session field written is
  \<^verbatim>\<open>last_upload\<close>, which becomes the name of the uploaded file; the session state is
  unchanged exactly when that name was already the last upload.
\<close>

theorem C5_parse_failure_effect:
  "(file_read_csv f = Inl e \<longrightarrow> process_uploaded_data f = (None, Some e))
   \<and> (process_uploaded_data f = (None, Some e) \<longrightarrow>
        upload_branch st (Some f) =
          (st\<lparr>last_upload := Some (file_name f)\<rparr>, None,
           if e = [] then None else Some (ErrorMessage e))
        \<and> data_loaded (fst (upload_branch st (Some f))) = data_loaded st
        \<and> (last_upload st = Some (file_name f) \<longrightarrow> fst (upload_branch st (Some f)) = st))"
proof (intro conjI impI)
  assume "file_read_csv f = Inl e"
  then show "process_uploaded_data f = (None, Some e)"
    by (simp add: process_uploaded_data_def)
next
  assume p: "process_uploaded_data f = (None, Some e)"
  then show "upload_branch st (Some f) =
          (st\<lparr>last_upload := Some (file_name f)\<rparr>, None,
           if e = [] then None else Some (ErrorMessage e))"
    by (auto simp add: upload_branch_def)
  from p show "data_loaded (fst (upload_branch st (Some f))) = data_loaded st"
    by (auto simp add: upload_branch_def)
next
  assume p: "process_uploaded_data f = (None, Some e)"
    and l: "last_upload st = Some (file_name f)"
  then show "fst (upload_branch st (Some f)) = st"
    by (auto simp add: upload_branch_def)
qed

theorem C5_parse_failure_effect_witness:
  "upload_branch \<lparr>data_loaded = True, last_upload = Some ''shop.csv''\<rparr>
     (Some \<lparr>file_name = ''broken.csv'',
            file_read_csv = Inl ''No columns to parse from file'',
            file_to_datetime = None\<rparr>)
   = (\<lparr>data_loaded = True, last_upload = Some ''broken.csv''\<rparr>, None,
      Some (ErrorMessage ''No columns to parse from file''))
   \<and> fst (upload_branch \<lparr>data_loaded = True, last_upload = Some ''broken.csv''\<rparr>
     (Some \<lparr>file_name = ''broken.csv'',
            file_read_csv = Inl ''No columns to parse from file'',
            file_to_datetime = None\<rparr>))
   = \<lparr>data_loaded = True, last_upload = Some ''broken.csv''\<rparr>"
  using C5_parse_failure_effect
      [of "\<lparr>file_name = ''broken.csv'',
            file_read_csv = Inl ''No columns to parse from file'',
            file_to_datetime = None\<rparr>"
          "''No columns to parse from file''"
          "\<lparr>data_loaded = True, last_upload = Some ''shop.csv''\<rparr>"]
    C5_parse_failure_effect
      [of "\<lparr>file_name = ''broken.csv'',
            file_read_csv = Inl ''No columns to parse from file'',
            file_to_datetime = None\<rparr>"
          "''No columns to parse from file''"
          "\<lparr>data_loaded = True, last_upload = Some ''broken.csv''\<rparr>"]
  by simp

text \<open>
  C5 as stated fails: after a failed parse of a file with a new name the session state
  differs from the one before (\<^verbatim>\<open>last_upload\<close> now names the broken file).
\<close>

theorem C5_state_changed_counterexample:
  "process_uploaded_data
     \<lparr>file_name = ''broken.csv'', file_read_csv = Inl ''No columns to parse from file'',
      file_to_datetime = None\<rparr>
     = (None, Some ''No columns to parse from file'')
   \<and> fst (upload_branch \<lparr>data_loaded = True, last_upload = Some ''shop.csv''\<rparr>
       (Some \<lparr>file_name = ''broken.csv'',
              file_read_csv = Inl ''No columns to parse from file'',
              file_to_datetime = None\<rparr>))
     \<noteq> \<lparr>data_loaded = True, last_upload = Some ''shop.csv''\<rparr>"
  by (simp add: upload_branch_def process_uploaded_data_def)

lemma missing_cols_set:
  "set (missing_cols cols) = set required_cols - set cols"
  by (auto simp add: missing_cols_def)

lemma loaded_frames_missing_cols:
  assumes "process_uploaded_data f = (Some fr, None)"
    and "\<exists>c\<in>set required_cols. c \<notin> set (frame_columns fr)"
  shows "snd (upload_branch st (Some f))
           = (None, Some (MissingColumns (missing_cols (frame_columns fr))))"
    and "''Date'' \<in> set (frame_columns fr)"
    and "''Date'' \<notin> set (missing_cols (frame_columns fr))"
proof -
  from assms(2) have ne: "missing_cols (frame_columns fr) \<noteq> []"
    using missing_cols_set [of "frame_columns fr"] by auto
  with assms(1) show "snd (upload_branch st (Some f))
           = (None, Some (MissingColumns (missing_cols (frame_columns fr))))"
    by (simp add: upload_branch_def)
  from assms(1) show d: "''Date'' \<in> set (frame_columns fr)"
    by (auto simp add: process_uploaded_data_def split: sum.splits if_splits option.splits)
  then show "''Date'' \<notin> set (missing_cols (frame_columns fr))"
    by (simp add: missing_cols_set)
qed

text \<open>
  C6. An upload whose header is Visitors, Orders, Revenue, Segment lacks the required
  column Date, and the column check of line 92 on these columns would name Date. The
  code never gets there: the lookup of the Date column in line 38 raises inside the
  \<^verbatim>\<open>try\<close>, the upload is reported as the error \<^verbatim>\<open>'Date'\<close> and no list of missing
  columns is shown. For the header Date, Visitors, Revenue, Segment the check is reached
  and reports exactly Orders.
\<close>

theorem C6_missing_date_reported_as_error:
  "upload_branch \<lparr>data_loaded = False, last_upload = None\<rparr>
     (Some \<lparr>file_name = ''shop.csv'',
            file_read_csv =
              Inr \<lparr>frame_columns = [''Visitors'', ''Orders'', ''Revenue'', ''Segment''],
                   frame_rows = []\<rparr>,
            file_to_datetime = None\<rparr>)
   = (\<lparr>data_loaded = False, last_upload = Some ''shop.csv''\<rparr>, None,
      Some (ErrorMessage ([CHR 0x27] @ ''Date'' @ [CHR 0x27])))
   \<and> missing_cols [''Visitors'', ''Orders'', ''Revenue'', ''Segment''] = [''Date'']
   \<and> upload_branch \<lparr>data_loaded = False, last_upload = None\<rparr>
     (Some \<lparr>file_name = ''shop.csv'',
            file_read_csv =
              Inr \<lparr>frame_columns = [''Date'', ''Visitors'', ''Revenue'', ''Segment''],
                   frame_rows = []\<rparr>,
            file_to_datetime = None\<rparr>)
   = (\<lparr>data_loaded = False, last_upload = Some ''shop.csv''\<rparr>, None,
      Some (MissingColumns [''Orders'']))"
  by (simp add: upload_branch_def process_uploaded_data_def key_error_def missing_cols_def
      required_cols_def)

end
